theory Spec2Isabelle
  imports Main "HOL-Library.AList"
begin

section \<open>JSON values as the gateway handles them\<close>

text \<open>
  The gateway (\<^verbatim>\<open>server/server.js\<close>) is untyped: request bodies and the stored
  files are whatever \<^verbatim>\<open>JSON.parse\<close> yields. A number is represented by its
  canonical decimal rendering (what \<^verbatim>\<open>String(n)\<close> and \<^verbatim>\<open>JSON.stringify(n)\<close>
  print, so zero is \<open>''0''\<close>); two numbers are equal exactly when their renderings are.
  A JavaScript object is the list of its own properties, each key once, in insertion
  order (the place JavaScript gives to integer-like keys, which it enumerates first, is
  not modelled); a property whose value is \<^verbatim>\<open>undefined\<close> is
  absent, as it is after serialisation. Strings are Isabelle strings, that is, the
  Latin-1 range of JavaScript's. A request body is a JSON object, as
  \<^verbatim>\<open>bodyParser.json()\<close> delivers it.
\<close>

datatype json =
    JNull
  | JBool bool
  | JNum string
  | JStr string
  | JArr "json list"
  | JObj "(string \<times> json) list"

type_synonym obj = "(string \<times> json) list"

text \<open>Reading a property, \<^verbatim>\<open>o.k\<close>: \<open>None\<close> is \<^verbatim>\<open>undefined\<close>.\<close>

definition lookup :: "obj \<Rightarrow> string \<Rightarrow> json option" where
  "lookup ob k = map_of ob k"

text \<open>A property of an object literal: dropped when the value is \<^verbatim>\<open>undefined\<close>.\<close>

fun field :: "string \<Rightarrow> json option \<Rightarrow> obj" where
  "field k None = []"
| "field k (Some v) = [(k, v)]"

text \<open>JavaScript truthiness, as tested by \<^verbatim>\<open>!x\<close>, \<^verbatim>\<open>x || y\<close> and \<^verbatim>\<open>x && y\<close>.\<close>

fun truthy :: "json option \<Rightarrow> bool" where
  "truthy None = False"
| "truthy (Some JNull) = False"
| "truthy (Some (JBool b)) = b"
| "truthy (Some (JNum n)) = (n \<noteq> ''0'')"
| "truthy (Some (JStr s)) = (s \<noteq> [])"
| "truthy (Some (JArr xs)) = True"
| "truthy (Some (JObj kvs)) = True"

text \<open>
  Strict equality \<^verbatim>\<open>a === b\<close> between a value read from a stored file and a value of
  the request. Primitives compare by value; objects and arrays compare by reference, and
  two values parsed from different texts are never the same reference.
\<close>

fun strict_eq :: "json option \<Rightarrow> json option \<Rightarrow> bool" where
  "strict_eq None None = True"
| "strict_eq (Some JNull) (Some JNull) = True"
| "strict_eq (Some (JBool a)) (Some (JBool b)) = (a = b)"
| "strict_eq (Some (JNum a)) (Some (JNum b)) = (a = b)"
| "strict_eq (Some (JStr a)) (Some (JStr b)) = (a = b)"
| "strict_eq _ _ = False"

text \<open>The values that are neither arrays nor objects.\<close>

fun primitive :: "json \<Rightarrow> bool" where
  "primitive (JArr xs) = False"
| "primitive (JObj kvs) = False"
| "primitive v = True"

text \<open>\<^verbatim>\<open>Array.prototype.join\<close> on strings.\<close>

fun join :: "string \<Rightarrow> string list \<Rightarrow> string" where
  "join sep [] = []"
| "join sep [x] = x"
| "join sep (x # y # ys) = x @ sep @ join sep (y # ys)"

text \<open>
  The string conversion a template literal applies. An object with an own property
  \<^verbatim>\<open>toString\<close> (never a function after \<^verbatim>\<open>JSON.parse\<close>) raises a TypeError: \<open>None\<close>.
\<close>

fun sequence :: "'a option list \<Rightarrow> 'a list option" where
  "sequence [] = Some []"
| "sequence (None # xs) = None"
| "sequence (Some x # xs) = (case sequence xs of None \<Rightarrow> None | Some ys \<Rightarrow> Some (x # ys))"

fun to_text :: "json \<Rightarrow> string option" where
  "to_text JNull = Some ''null''"
| "to_text (JBool b) = Some (if b then ''true'' else ''false'')"
| "to_text (JNum n) = Some n"
| "to_text (JStr s) = Some s"
| "to_text (JArr xs) =
     map_option (join '','')
       (sequence (map (\<lambda>x. if x = JNull then Some [] else to_text x) xs))"
| "to_text (JObj kvs) =
     (if ''toString'' \<in> fst ` set kvs then None else Some ''[object Object]'')"

text \<open>The header value \<^verbatim>\<open>`Bearer ${key}`\<close>.\<close>

definition bearer :: "json option \<Rightarrow> string option" where
  "bearer key =
     (case key of
        None \<Rightarrow> Some ''Bearer undefined''
      | Some j \<Rightarrow> map_option (\<lambda>s. ''Bearer '' @ s) (to_text j))"

text \<open>\<^verbatim>\<open>String.prototype.trim\<close>: white space and line terminators of the Latin-1 range.\<close>

definition is_space :: "char \<Rightarrow> bool" where
  "is_space c = ((of_char c :: nat) \<in> {9, 10, 11, 12, 13, 32, 160})"

definition trim :: "string \<Rightarrow> string" where
  "trim s = rev (dropWhile is_space (rev (dropWhile is_space s)))"

text \<open>
  Object spread \<^verbatim>\<open>{ ...acc, ...body }\<close>: the properties of \<open>acc\<close>, then each property
  of \<open>body\<close> in turn, replacing the value of a key already there and appending a new one.
\<close>

definition spread :: "obj \<Rightarrow> obj \<Rightarrow> obj" where
  "spread acc rbody = fold (\<lambda>(k, v) ob. AList.update k v ob) rbody acc"

section \<open>The world of the gateway: two files, the provider, the effects\<close>

text \<open>
  A file is absent (\<^verbatim>\<open>ENOENT\<close>), empty, unreadable (another read error, or a text
  that does not parse; the error's message is kept), or holds an array of objects, which
  is all the gateway itself ever writes. \<open>fault\<close> is the error of a disk that refuses
  writes.
\<close>

datatype disk_file = Absent | Blank | Unreadable string | Stored "obj list"

datatype path = accountsFilePath | subscribersFilePath

datatype provider_call =
    AxiosGet string "(string \<times> string) list"
  | AxiosPost string obj "(string \<times> string) list"

text \<open>
  An error caught by a handler: \<^verbatim>\<open>error.response\<close> (its \<^verbatim>\<open>status\<close> and \<^verbatim>\<open>data\<close>), present
  only when the provider answered, and \<^verbatim>\<open>error.message\<close>. An axios call either replies
  with its data or throws such an error. Axios throws with a response when the final
  response of the provider has a status outside 200 to 299, that is, a status from 300
  on (a redirect it cannot follow, 304, a client or server error).
\<close>

datatype js_error = Error "(nat \<times> json) option" string

datatype outcome = Replied json | Threw js_error

datatype effect = Wrote path "obj list" | Called provider_call

record world =
  accounts :: disk_file
  subscribers :: disk_file
  fault :: "string option"
  log :: "effect list"

record response =
  status :: nat
  body :: "json option"

definition file_at :: "world \<Rightarrow> path \<Rightarrow> disk_file" where
  "file_at w p = (case p of accountsFilePath \<Rightarrow> accounts w | subscribersFilePath \<Rightarrow> subscribers w)"

definition writeJsonFile :: "world \<Rightarrow> path \<Rightarrow> obj list \<Rightarrow> string + world" where
  "writeJsonFile w p xs =
     (case fault w of
        Some msg \<Rightarrow> Inl msg
      | None \<Rightarrow>
          Inr (case p of
                 accountsFilePath \<Rightarrow> w\<lparr>accounts := Stored xs, log := log w @ [Wrote p xs]\<rparr>
               | subscribersFilePath \<Rightarrow> w\<lparr>subscribers := Stored xs, log := log w @ [Wrote p xs]\<rparr>))"

definition readJsonFile :: "world \<Rightarrow> path \<Rightarrow> (string + obj list) \<times> world" where
  "readJsonFile w p =
     (case file_at w p of
        Stored xs \<Rightarrow> (Inr xs, w)
      | Blank \<Rightarrow> (Inr [], w)
      | Absent \<Rightarrow>
          (case writeJsonFile w p [] of
             Inl msg \<Rightarrow> (Inl msg, w)
           | Inr w' \<Rightarrow> (Inr [], w'))
      | Unreadable msg \<Rightarrow> (Inl msg, w))"

definition call :: "(provider_call \<Rightarrow> outcome) \<Rightarrow> world \<Rightarrow> provider_call \<Rightarrow> outcome \<times> world" where
  "call provider w c = (provider c, w\<lparr>log := log w @ [Called c]\<rparr>)"

text \<open>
  \<^verbatim>\<open>res.status(st).json(ob)\<close>. Express empties the body when the status is 204 or
  304, and Node writes no body under a 1xx status: the response is then the status
  alone. (Recent versions of Express also empty the body at 205; no handler here sets
  that status, and axios does not throw on it.) A status is the three-digit code of an
  HTTP response: with a number below 100 or above 999 Node refuses to write the head,
  which is not modelled.
\<close>

definition json_reply :: "nat \<Rightarrow> obj \<Rightarrow> response" where
  "json_reply st ob =
     \<lparr>status = st,
      body = (if st = 204 \<or> st = 304 \<or> (100 \<le> st \<and> st < 200) then None
              else Some (JObj ob))\<rparr>"

definition db_error :: response where
  "db_error = json_reply 500 [(''error'', JStr ''DB Error'')]"

section \<open>Account management\<close>

text \<open>
  \<^verbatim>\<open>PUT /api/accounts/:id\<close>. The callback of \<^verbatim>\<open>accounts.map\<close> assigns the captured
  variable \<^verbatim>\<open>updated\<close> at every match; \<open>update_all\<close> threads it through the array.
\<close>

fun update_all :: "string \<Rightarrow> obj \<Rightarrow> obj list \<Rightarrow> obj option \<Rightarrow> obj list \<times> obj option" where
  "update_all rid rbody [] updated = ([], updated)"
| "update_all rid rbody (acc # rest) updated =
     (if strict_eq (lookup acc ''id'') (Some (JStr rid))
      then (case update_all rid rbody rest (Some (spread acc rbody)) of
              (rest', updated') \<Rightarrow> (spread acc rbody # rest', updated'))
      else (case update_all rid rbody rest updated of
              (rest', updated') \<Rightarrow> (acc # rest', updated')))"

definition put_account :: "world \<Rightarrow> string \<Rightarrow> obj \<Rightarrow> response \<times> world" where
  "put_account w rid rbody =
     (case readJsonFile w accountsFilePath of
        (Inl e, w1) \<Rightarrow> (db_error, w1)
      | (Inr accs, w1) \<Rightarrow>
          (case update_all rid rbody accs None of
             (accs', updated) \<Rightarrow>
               (case writeJsonFile w1 accountsFilePath accs' of
                  Inl e \<Rightarrow> (db_error, w1)
                | Inr w2 \<Rightarrow>
                    (json_reply 200 (case updated of Some u \<Rightarrow> u | None \<Rightarrow> []), w2))))"

text \<open>\<^verbatim>\<open>DELETE /api/accounts/:id\<close>.\<close>

definition delete_account :: "world \<Rightarrow> string \<Rightarrow> response \<times> world" where
  "delete_account w rid =
     (case readJsonFile w accountsFilePath of
        (Inl e, w1) \<Rightarrow> (db_error, w1)
      | (Inr accs, w1) \<Rightarrow>
          (case writeJsonFile w1 accountsFilePath
                  (filter (\<lambda>acc. \<not> strict_eq (lookup acc ''id'') (Some (JStr rid))) accs) of
             Inl e \<Rightarrow> (db_error, w1)
           | Inr w2 \<Rightarrow> (\<lparr>status = 204, body = None\<rparr>, w2)))"

section \<open>The provider proxies\<close>

text \<open>\<^verbatim>\<open>POST /api/check-status\<close>: every error caught, from the provider or not, gives 401.\<close>

definition auth_failed :: response where
  "auth_failed =
     json_reply 401
       [(''success'', JBool False),
        (''message'', JStr ''Authentication Failed''),
        (''details'', JStr ''Invalid Plunk Secret Key'')]"

definition check_status :: "(provider_call \<Rightarrow> outcome) \<Rightarrow> world \<Rightarrow> obj \<Rightarrow> response \<times> world" where
  "check_status provider w rbody =
     (let secretKey = lookup rbody ''secretKey'' in
      if \<not> truthy secretKey
      then (json_reply 400 [(''message'', JStr ''Missing Secret Key'')], w)
      else
        (case bearer secretKey of
           None \<Rightarrow> (auth_failed, w)
         | Some auth \<Rightarrow>
             (case call provider w
                     (AxiosGet ''https://api.useplunk.com/v1/contacts?limit=1''
                        [(''Authorization'', auth)]) of
                (Replied d, w1) \<Rightarrow>
                  (json_reply 200
                     [(''success'', JBool True),
                      (''message'', JStr ''Connected to Plunk.''),
                      (''data'', d)], w1)
              | (Threw e, w1) \<Rightarrow> (auth_failed, w1))))"

text \<open>
  \<^verbatim>\<open>POST /api/subscribers\<close>. \<open>uuid\<close> is what \<^verbatim>\<open>crypto.randomUUID()\<close> returns and
  \<open>now\<close> the serialised \<^verbatim>\<open>new Date()\<close>.
\<close>

definition post_subscriber :: "string \<Rightarrow> string \<Rightarrow> world \<Rightarrow> obj \<Rightarrow> response \<times> world" where
  "post_subscriber uuid now w rbody =
     (let email = lookup rbody ''email'' in
      if \<not> truthy email
      then (json_reply 400 [(''error'', JStr ''Email required'')], w)
      else
        (case readJsonFile w subscribersFilePath of
           (Inl e, w1) \<Rightarrow> (db_error, w1)
         | (Inr subs, w1) \<Rightarrow>
             (case find (\<lambda>s. strict_eq (lookup s ''email'') email) subs of
                Some s \<Rightarrow> (json_reply 409 [(''message'', JStr ''Already subscribed'')], w1)
              | None \<Rightarrow>
                  (let newSub = [(''id'', JStr uuid)] @ field ''email'' email @
                                [(''joinedAt'', JStr now)] in
                   case writeJsonFile w1 subscribersFilePath (subs @ [newSub]) of
                     Inl e \<Rightarrow> (db_error, w1)
                   | Inr w2 \<Rightarrow>
                       (json_reply 200
                          [(''success'', JBool True), (''subscriber'', JObj newSub)], w2)))))"

text \<open>The \<^verbatim>\<open>catch\<close> block of the send and track handlers.\<close>

fun failure_reply :: "string \<Rightarrow> js_error \<Rightarrow> response" where
  "failure_reply what (Error None msg) =
     json_reply 500 [(''error'', JStr what), (''details'', JStr msg)]"
| "failure_reply what (Error (Some (st, d)) msg) =
     json_reply (if st \<noteq> 0 then st else 500)
       [(''error'', JStr what), (''details'', if truthy (Some d) then d else JStr msg)]"

text \<open>
  The payload of \<^verbatim>\<open>POST /api/send-email\<close>, with the optional \<^verbatim>\<open>from\<close> override.
  Calling \<^verbatim>\<open>from.trim()\<close> on a truthy value that is not a string throws a TypeError.
\<close>

definition send_payload ::
  "json option \<Rightarrow> json option \<Rightarrow> json option \<Rightarrow> json option \<Rightarrow> js_error + obj" where
  "send_payload rto subject content rfrom =
     (let payload = field ''to'' rto @ field ''subject'' subject @ field ''body'' content @
                    [(''subscribed'', JBool True)] in
      if truthy rfrom
      then (case rfrom of
              Some (JStr s) \<Rightarrow>
                Inr (if trim s \<noteq> [] then payload @ [(''from'', JStr (trim s))] else payload)
            | _ \<Rightarrow> Inl (Error None ''from.trim is not a function''))
      else Inr payload)"

definition send_email :: "(provider_call \<Rightarrow> outcome) \<Rightarrow> world \<Rightarrow> obj \<Rightarrow> response \<times> world" where
  "send_email provider w rbody =
     (let accountId = lookup rbody ''accountId''; rto = lookup rbody ''to'';
          subject = lookup rbody ''subject''; content = lookup rbody ''content'';
          rfrom = lookup rbody ''from'' in
      if \<not> truthy accountId \<or> \<not> truthy rto \<or> \<not> truthy subject \<or> \<not> truthy content
      then (json_reply 400 [(''error'', JStr ''Missing parameters'')], w)
      else
        (case readJsonFile w accountsFilePath of
           (Inl msg, w1) \<Rightarrow> (failure_reply ''Failed to send email'' (Error None msg), w1)
         | (Inr accs, w1) \<Rightarrow>
             (case find (\<lambda>a. strict_eq (lookup a ''id'') accountId) accs of
                None \<Rightarrow> (json_reply 404 [(''error'', JStr ''Account not found'')], w1)
              | Some account \<Rightarrow>
                  (case send_payload rto subject content rfrom of
                     Inl e \<Rightarrow> (failure_reply ''Failed to send email'' e, w1)
                   | Inr payload \<Rightarrow>
                       (case bearer (lookup account ''secretKey'') of
                          None \<Rightarrow>
                            (failure_reply ''Failed to send email''
                               (Error None ''Cannot convert object to primitive value''), w1)
                        | Some auth \<Rightarrow>
                            (case call provider w1
                                    (AxiosPost ''https://api.useplunk.com/v1/send'' payload
                                       [(''Authorization'', auth),
                                        (''Content-Type'', ''application/json'')]) of
                               (Replied d, w2) \<Rightarrow> (\<lparr>status = 200, body = Some d\<rparr>, w2)
                             | (Threw e, w2) \<Rightarrow>
                                 (failure_reply ''Failed to send email'' e, w2)))))))"

text \<open>\<^verbatim>\<open>POST /api/track-event\<close>.\<close>

definition track_payload ::
  "json option \<Rightarrow> json option \<Rightarrow> json option \<Rightarrow> json option \<Rightarrow> obj" where
  "track_payload event email subscribed rdata =
     field ''event'' event @ field ''email'' email @
     [(''subscribed'', case subscribed of None \<Rightarrow> JBool True | Some v \<Rightarrow> v),
      (''data'', case rdata of None \<Rightarrow> JObj [] | Some d \<Rightarrow> if truthy (Some d) then d else JObj [])]"

definition track_event :: "(provider_call \<Rightarrow> outcome) \<Rightarrow> world \<Rightarrow> obj \<Rightarrow> response \<times> world" where
  "track_event provider w rbody =
     (let accountId = lookup rbody ''accountId''; event = lookup rbody ''event'';
          email = lookup rbody ''email''; rdata = lookup rbody ''data'';
          subscribed = lookup rbody ''subscribed'' in
      if \<not> truthy accountId \<or> \<not> truthy event \<or> \<not> truthy email
      then (json_reply 400 [(''error'', JStr ''Missing parameters (accountId, event, email)'')], w)
      else
        (case readJsonFile w accountsFilePath of
           (Inl msg, w1) \<Rightarrow> (failure_reply ''Failed to track event'' (Error None msg), w1)
         | (Inr accs, w1) \<Rightarrow>
             (case find (\<lambda>a. strict_eq (lookup a ''id'') accountId) accs of
                None \<Rightarrow> (json_reply 404 [(''error'', JStr ''Account not found'')], w1)
              | Some account \<Rightarrow>
                  (case bearer (lookup account ''secretKey'') of
                     None \<Rightarrow>
                       (failure_reply ''Failed to track event''
                          (Error None ''Cannot convert object to primitive value''), w1)
                   | Some auth \<Rightarrow>
                       (case call provider w1
                               (AxiosPost ''https://api.useplunk.com/v1/track''
                                  (track_payload event email subscribed rdata)
                                  [(''Authorization'', auth),
                                   (''Content-Type'', ''application/json'')]) of
                          (Replied d, w2) \<Rightarrow> (\<lparr>status = 200, body = Some d\<rparr>, w2)
                        | (Threw e, w2) \<Rightarrow>
                            (failure_reply ''Failed to track event'' e, w2))))))"

section \<open>The Log Viewer\<close>

text \<open>
  \<^verbatim>\<open>src/pages/Analytics.tsx\<close>, with the types of its interfaces: a TypeScript
  \<^verbatim>\<open>number\<close> that counts pages is an integer.
\<close>

datatype log_status = Delivered | Failed | Pending

record EmailLog =
  log_id :: string
  batchId :: string
  log_to :: string
  log_from :: string
  log_subject :: string
  log_status :: log_status
  errorMessage :: "string option"
  isOpened :: bool
  openCount :: int
  sentAt :: string

record Pagination =
  page :: int
  limit :: int
  total :: int
  totalPages :: int

record Stats =
  delivered :: nat
  failed :: nat
  opened :: nat
  unopened :: nat

definition stats :: "EmailLog list \<Rightarrow> Stats" where
  "stats logs =
     \<lparr>delivered = length (filter (\<lambda>l. log_status l = Delivered) logs),
      failed = length (filter (\<lambda>l. log_status l = Failed) logs),
      opened = length (filter (\<lambda>l. isOpened l) logs),
      unopened = length (filter (\<lambda>l. \<not> isOpened l) logs)\<rparr>"

text \<open>
  \<^verbatim>\<open>handleExport\<close>: either the error toast and nothing else, or the download of a text
  file (its name, built from the date \<open>today\<close>, and its content).
\<close>

datatype export = ToastError string | Download string string

definition handleExport :: "string \<Rightarrow> EmailLog list \<Rightarrow> export" where
  "handleExport today logs =
     (if length logs = 0 then ToastError ''No logs to export''
      else Download (''analytics-export-'' @ today @ ''.txt'')
             (join [CHR 0x0A] (map log_to logs)))"

text \<open>
  \<^verbatim>\<open>fetchLogs\<close>, as far as the request it sends: none without a current account.
  \<open>current\<close> is the id of the current account, \<open>statusFilter\<close> the selected filter.
\<close>

record log_query =
  q_accountId :: string
  q_page :: int
  q_limit :: int
  q_status :: "string option"

definition fetchLogs :: "string option \<Rightarrow> Pagination \<Rightarrow> string \<Rightarrow> int \<Rightarrow> log_query list" where
  "fetchLogs current pagination statusFilter pg =
     (case current of
        None \<Rightarrow> []
      | Some acc_id \<Rightarrow>
          [\<lparr>q_accountId = acc_id, q_page = pg, q_limit = limit pagination,
            q_status = (if statusFilter \<noteq> ''all'' then Some statusFilter else None)\<rparr>])"

definition handlePageChange :: "string option \<Rightarrow> Pagination \<Rightarrow> string \<Rightarrow> int \<Rightarrow> log_query list" where
  "handlePageChange current pagination statusFilter newPage =
     (if newPage \<ge> 1 \<and> newPage \<le> totalPages pagination
      then fetchLogs current pagination statusFilter newPage
      else [])"

section \<open>The payload as the specification words it\<close>


section \<open>A sample world and sample requests\<close>

text \<open>Concrete data on which the handlers are run below.\<close>

definition acc1 :: obj where
  "acc1 = [(''id'', JStr ''a1''), (''secretKey'', JStr ''sk_1''), (''name'', JStr ''Main'')]"

definition acc2 :: obj where
  "acc2 = [(''id'', JStr ''a2''), (''secretKey'', JStr ''sk_2'')]"

definition sub1 :: obj where
  "sub1 = [(''id'', JStr ''u-1''), (''email'', JStr ''ann@example.org''),
           (''joinedAt'', JStr ''2024-01-01T00:00:00.000Z'')]"


definition world0 :: world where
  "world0 = \<lparr>accounts = Stored [acc1, acc2], subscribers = Stored [sub1], fault = None, log = []\<rparr>"

definition plunk_up :: "provider_call \<Rightarrow> outcome" where
  "plunk_up c = Replied (JObj [(''success'', JBool True)])"

definition plunk_rejects :: "provider_call \<Rightarrow> outcome" where
  "plunk_rejects c =
     Threw (Error (Some (422, JObj [(''message'', JStr ''Invalid email'')]))
              ''Request failed with status code 422'')"

definition plunk_not_modified :: "provider_call \<Rightarrow> outcome" where
  "plunk_not_modified c =
     Threw (Error (Some (304, JStr [])) ''Request failed with status code 304'')"

definition plunk_unreachable :: "provider_call \<Rightarrow> outcome" where
  "plunk_unreachable c = Threw (Error None ''connect ECONNREFUSED'')"

definition send_request :: obj where
  "send_request =
     [(''accountId'', JStr ''a1''), (''to'', JStr ''bob@example.org''),
      (''subject'', JStr ''Hi''), (''content'', JStr ''Hello'')]"


definition track_request :: obj where
  "track_request =
     [(''accountId'', JStr ''a2''), (''event'', JStr ''signup''),
      (''email'', JStr ''bob@example.org'')]"

definition check_request :: obj where
  "check_request = [(''secretKey'', JStr ''sk_bad'')]"

definition send_call :: provider_call where
  "send_call =
     AxiosPost ''https://api.useplunk.com/v1/send''
       [(''to'', JStr ''bob@example.org''), (''subject'', JStr ''Hi''),
        (''body'', JStr ''Hello''), (''subscribed'', JBool True)]
       [(''Authorization'', ''Bearer sk_1''), (''Content-Type'', ''application/json'')]"

definition track_call :: provider_call where
  "track_call =
     AxiosPost ''https://api.useplunk.com/v1/track''
       [(''event'', JStr ''signup''), (''email'', JStr ''bob@example.org''),
        (''subscribed'', JBool True), (''data'', JObj [])]
       [(''Authorization'', ''Bearer sk_2''), (''Content-Type'', ''application/json'')]"

definition check_call :: provider_call where
  "check_call =
     AxiosGet ''https://api.useplunk.com/v1/contacts?limit=1''
       [(''Authorization'', ''Bearer sk_bad'')]"

section \<open>Auxiliary facts\<close>

lemma strict_eq_primitive: "primitive v \<Longrightarrow> strict_eq x (Some v) = (x = Some v)"
  by (cases x; cases v) (auto split: json.splits; (case_tac a; simp)?)+

lemma strict_eq_str: "strict_eq x (Some (JStr s)) = (x = Some (JStr s))"
  by (simp add: strict_eq_primitive)






lemma update_all_none:
  "\<forall>a\<in>set accs. lookup a ''id'' \<noteq> Some (JStr rid) \<Longrightarrow> update_all rid rbody accs u = (accs, u)"
  by (induction accs arbitrary: u) (simp_all add: strict_eq_str)

lemma join_Cons: "join sep (x # xs) = x @ concat (map (\<lambda>y. sep @ y) xs)"
  by (induction xs arbitrary: x) auto

lemma read_stored:
  "file_at w p = Stored xs \<Longrightarrow> readJsonFile w p = (Inr xs, w)"
  by (simp add: readJsonFile_def)



text \<open>A request with a falsy required field is answered 400 and nothing else happens.\<close>

lemma check_status_falsy:
  "\<not> truthy (lookup rbody ''secretKey'') \<Longrightarrow>
   check_status provider w rbody = (json_reply 400 [(''message'', JStr ''Missing Secret Key'')], w)"
  by (simp add: check_status_def)

lemma post_subscriber_falsy:
  "\<not> truthy (lookup rbody ''email'') \<Longrightarrow>
   post_subscriber uuid now w rbody = (json_reply 400 [(''error'', JStr ''Email required'')], w)"
  by (simp add: post_subscriber_def)

lemma send_email_falsy:
  "\<not> truthy (lookup rbody ''accountId'') \<or> \<not> truthy (lookup rbody ''to'') \<or>
   \<not> truthy (lookup rbody ''subject'') \<or> \<not> truthy (lookup rbody ''content'') \<Longrightarrow>
   send_email provider w rbody = (json_reply 400 [(''error'', JStr ''Missing parameters'')], w)"
  by (simp add: send_email_def)

lemma track_event_falsy:
  "\<not> truthy (lookup rbody ''accountId'') \<or> \<not> truthy (lookup rbody ''event'') \<or>
   \<not> truthy (lookup rbody ''email'') \<Longrightarrow>
   track_event provider w rbody =
     (json_reply 400 [(''error'', JStr ''Missing parameters (accountId, event, email)'')], w)"
  by (simp add: track_event_def)

text \<open>
  Starting from an empty effect log, a provider call in the log is the one call the
  handler made, and the response is decided by what the provider did with it.
\<close>

lemma send_call_made:
  assumes "log w = []" and "Called c \<in> set (log (snd (send_email provider w rbody)))"
  shows "fst (send_email provider w rbody) =
           (case provider c of Replied d \<Rightarrow> \<lparr>status = 200, body = Some d\<rparr>
            | Threw e \<Rightarrow> failure_reply ''Failed to send email'' e)"
  using assms
  by (auto simp: send_email_def readJsonFile_def writeJsonFile_def file_at_def call_def Let_def
      split: if_splits disk_file.splits option.splits sum.splits outcome.splits prod.splits)

lemma track_call_made:
  assumes "log w = []" and "Called c \<in> set (log (snd (track_event provider w rbody)))"
  shows "fst (track_event provider w rbody) =
           (case provider c of Replied d \<Rightarrow> \<lparr>status = 200, body = Some d\<rparr>
            | Threw e \<Rightarrow> failure_reply ''Failed to track event'' e)"
  using assms
  by (auto simp: track_event_def readJsonFile_def writeJsonFile_def file_at_def call_def Let_def
      split: if_splits disk_file.splits option.splits sum.splits outcome.splits prod.splits)

lemma check_call_made:
  assumes "log w = []" and "Called c \<in> set (log (snd (check_status provider w rbody)))"
  shows "fst (check_status provider w rbody) =
           (case provider c of
              Replied d \<Rightarrow>
                json_reply 200 [(''success'', JBool True), (''message'', JStr ''Connected to Plunk.''),
                                (''data'', d)]
            | Threw e \<Rightarrow> auth_failed)"
  using assms
  by (auto simp: check_status_def call_def Let_def
      split: if_splits option.splits outcome.splits prod.splits)

text \<open>The sample requests on the sample world: the one call each of them makes.\<close>

lemma send_log: "log (snd (send_email provider world0 send_request)) = [Called send_call]"
  by (simp add: send_email_def send_request_def lookup_def world0_def readJsonFile_def file_at_def
      acc1_def acc2_def send_payload_def bearer_def call_def send_call_def split: outcome.splits)

lemma track_log: "log (snd (track_event provider world0 track_request)) = [Called track_call]"
  by (simp add: track_event_def track_request_def lookup_def world0_def readJsonFile_def file_at_def
      acc1_def acc2_def track_payload_def bearer_def call_def track_call_def split: outcome.splits)

lemma check_log:
  "log (snd (check_status provider world0 check_request)) = [Called check_call]"
  by (simp add: check_status_def lookup_def world0_def bearer_def call_def check_call_def
      check_request_def split: outcome.splits)


section \<open>The Log Viewer's properties\<close>

text \<open>
  C8. The four dashboard counts are functions of the loaded page alone: delivered is the
  number of loaded logs whose status is delivered, failed the number whose status is
  failed, opened the number with \<open>isOpened\<close> true, unopened the number with \<open>isOpened\<close>
  false (each counted by position in the page); so opened and unopened add up to the
  number of loaded logs.
\<close>

theorem stats_count_loaded_page:
  "delivered (stats logs) = card {i. i < length logs \<and> log_status (logs ! i) = Delivered} \<and>
   failed (stats logs) = card {i. i < length logs \<and> log_status (logs ! i) = Failed} \<and>
   opened (stats logs) = card {i. i < length logs \<and> isOpened (logs ! i)} \<and>
   unopened (stats logs) = card {i. i < length logs \<and> \<not> isOpened (logs ! i)} \<and>
   opened (stats logs) + unopened (stats logs) = length logs"
proof -
  have "opened (stats logs) + unopened (stats logs) = length logs"
    by (simp add: stats_def sum_length_filter_compl)
  moreover have "delivered (stats logs) = card {i. i < length logs \<and> log_status (logs ! i) = Delivered}"
    by (simp add: stats_def length_filter_conv_card)
  moreover have "failed (stats logs) = card {i. i < length logs \<and> log_status (logs ! i) = Failed}"
    by (simp add: stats_def length_filter_conv_card)
  moreover have "opened (stats logs) = card {i. i < length logs \<and> isOpened (logs ! i)}"
    by (simp add: stats_def length_filter_conv_card)
  moreover have "unopened (stats logs) = card {i. i < length logs \<and> \<not> isOpened (logs ! i)}"
    by (simp add: stats_def length_filter_conv_card)
  ultimately show ?thesis by blast
qed

text \<open>
  C9. On an empty page the export produces no file and reports the error
  ``No logs to export''. On a non-empty page it produces a text file whose content is
  the \<open>to\<close> address of the first loaded log followed, for every further log in page
  order, by one newline character and that log's \<open>to\<close> address.
\<close>

theorem handleExport_newline_delimited:
  "handleExport today logs =
     (case logs of
        [] \<Rightarrow> ToastError ''No logs to export''
      | l # ls \<Rightarrow>
          Download (''analytics-export-'' @ today @ ''.txt'')
            (log_to l @ concat (map (\<lambda>m. CHR 0x0A # log_to m) ls)))"
  by (cases logs) (simp_all add: handleExport_def join_Cons comp_def)

text \<open>
  C6. Every request the page-change handler sends asks for the page it was given, and
  that page lies between 1 and \<open>pagination.totalPages\<close> inclusive: for a page below 1 or
  above \<open>totalPages\<close> nothing is sent.
\<close>

theorem handlePageChange_in_bounds:
  "q \<in> set (handlePageChange current pagination statusFilter newPage) \<Longrightarrow>
   q_page q = newPage \<and> 1 \<le> newPage \<and> newPage \<le> totalPages pagination"
  by (auto simp: handlePageChange_def fetchLogs_def split: if_splits option.splits)

theorem handlePageChange_in_bounds_witness:
  "\<lparr>q_accountId = ''acc1'', q_page = 2, q_limit = 100, q_status = None\<rparr>
     \<in> set (handlePageChange (Some ''acc1'')
              \<lparr>page = 1, limit = 100, total = 250, totalPages = 3\<rparr> ''all'' 2) \<and>
   q_page \<lparr>q_accountId = ''acc1'', q_page = 2, q_limit = 100, q_status = None\<rparr> = 2 \<and>
   (1::int) \<le> 2 \<and>
   2 \<le> totalPages \<lparr>page = 1, limit = 100, total = 250, totalPages = 3\<rparr>"
proof -
  have h: "\<lparr>q_accountId = ''acc1'', q_page = 2, q_limit = 100, q_status = None\<rparr>
     \<in> set (handlePageChange (Some ''acc1'')
              \<lparr>page = 1, limit = 100, total = 250, totalPages = 3\<rparr> ''all'' 2)"
    by (simp add: handlePageChange_def fetchLogs_def)
  show ?thesis
    using h handlePageChange_in_bounds [OF h] by simp
qed

section \<open>The gateway's properties\<close>

text \<open>
  The theorems about stored data are stated for a file that holds an array
  (\<open>Stored\<close>) and, where the handler writes, for a disk that accepts the write
  (\<open>fault w = None\<close>). An absent or empty file is read as the empty array (the absent
  one is first created holding it); an unreadable file or a refused write ends in the
  handler's \<^verbatim>\<open>catch\<close> block. An \<open>id\<close> of the URL is a string, and it matches a stored
  account when the account's \<open>id\<close> is that string. The effect log of the world after a
  request records every file written and every provider call made.
\<close>

text \<open>
  C5. \<^verbatim>\<open>DELETE /api/accounts/:id\<close> answers 204 and rewrites the file with the stored
  accounts whose id is not the requested one, in their stored order: exactly the accounts
  with that id are removed. When no stored account has the id, the rewritten array is
  the stored array.
\<close>

theorem delete_account_removes_exactly:
  assumes "accounts w = Stored accs" and "fault w = None"
  shows "delete_account w rid =
           (\<lparr>status = 204, body = None\<rparr>,
            w\<lparr>accounts := Stored (filter (\<lambda>a. lookup a ''id'' \<noteq> Some (JStr rid)) accs),
              log := log w @ [Wrote accountsFilePath
                                (filter (\<lambda>a. lookup a ''id'' \<noteq> Some (JStr rid)) accs)]\<rparr>) \<and>
         ((\<forall>a\<in>set accs. lookup a ''id'' \<noteq> Some (JStr rid)) \<longrightarrow>
            filter (\<lambda>a. lookup a ''id'' \<noteq> Some (JStr rid)) accs = accs)"
  using assms
  by (simp add: delete_account_def read_stored file_at_def writeJsonFile_def strict_eq_str)

theorem delete_account_removes_exactly_witness:
  "accounts world0 = Stored [acc1, acc2] \<and> fault world0 = None \<and>
   delete_account world0 ''a1'' =
     (\<lparr>status = 204, body = None\<rparr>,
      world0\<lparr>accounts := Stored [acc2], log := [Wrote accountsFilePath [acc2]]\<rparr>) \<and>
   lookup acc1 ''id'' \<noteq> Some (JStr ''a9'') \<and> lookup acc2 ''id'' \<noteq> Some (JStr ''a9'') \<and>
   delete_account world0 ''a9'' =
     (\<lparr>status = 204, body = None\<rparr>,
      world0\<lparr>accounts := Stored [acc1, acc2], log := [Wrote accountsFilePath [acc1, acc2]]\<rparr>)"
proof -
  have a: "accounts world0 = Stored [acc1, acc2]" and f: "fault world0 = None"
    by (simp_all add: world0_def)
  have ids: "lookup acc1 ''id'' = Some (JStr ''a1'')" "lookup acc2 ''id'' = Some (JStr ''a2'')"
    by (simp_all add: acc1_def acc2_def lookup_def)
  show ?thesis
    using delete_account_removes_exactly [OF a f, of "''a1''"]
          delete_account_removes_exactly [OF a f, of "''a9''"] a f ids
    by (simp add: world0_def)
qed

text \<open>
  C10. \<^verbatim>\<open>PUT /api/accounts/:id\<close> with an id that no stored account has answers 200
  with the empty object, and its only effect is to write the stored array back to the
  accounts file unchanged.
\<close>

theorem put_unknown_id_is_200_empty:
  assumes "accounts w = Stored accs" and "fault w = None"
    and "\<forall>a\<in>set accs. lookup a ''id'' \<noteq> Some (JStr rid)"
  shows "put_account w rid rbody =
           (\<lparr>status = 200, body = Some (JObj [])\<rparr>,
            w\<lparr>log := log w @ [Wrote accountsFilePath accs]\<rparr>)"
  using assms
  by (simp add: put_account_def read_stored file_at_def writeJsonFile_def update_all_none
      json_reply_def)

theorem put_unknown_id_is_200_empty_witness:
  "accounts world0 = Stored [acc1, acc2] \<and> fault world0 = None \<and>
   lookup acc1 ''id'' \<noteq> Some (JStr ''a9'') \<and> lookup acc2 ''id'' \<noteq> Some (JStr ''a9'') \<and>
   put_account world0 ''a9'' [(''name'', JStr ''Renamed'')] =
     (\<lparr>status = 200, body = Some (JObj [])\<rparr>,
      world0\<lparr>log := [Wrote accountsFilePath [acc1, acc2]]\<rparr>) \<and>
   accounts (world0\<lparr>log := [Wrote accountsFilePath [acc1, acc2]]\<rparr>) = accounts world0"
proof -
  have a: "accounts world0 = Stored [acc1, acc2]" and f: "fault world0 = None"
    and l: "log world0 = []"
    by (simp_all add: world0_def)
  have ids: "lookup acc1 ''id'' \<noteq> Some (JStr ''a9'')" "lookup acc2 ''id'' \<noteq> Some (JStr ''a9'')"
    by (simp_all add: acc1_def acc2_def lookup_def)
  have n: "\<forall>a\<in>set [acc1, acc2]. lookup a ''id'' \<noteq> Some (JStr ''a9'')"
    using ids by simp
  show ?thesis
    using put_unknown_id_is_200_empty [OF a f n, of "[(''name'', JStr ''Renamed'')]"] a f l ids
    by simp
qed



text \<open>
  C4. A request that lacks a required field (\<open>secretKey\<close> for the status check,
  \<open>email\<close> for a subscription, any of \<open>accountId\<close>, \<open>to\<close>, \<open>subject\<close>, \<open>content\<close>
  for a send, any of \<open>accountId\<close>, \<open>event\<close>, \<open>email\<close> for a tracked event) is answered
  with status 400, and the world after it is the world before it: no file is written and
  the provider is not called.
\<close>

theorem missing_field_is_400:
  "(lookup rbody ''secretKey'' = None \<longrightarrow>
      status (fst (check_status provider w rbody)) = 400 \<and>
      snd (check_status provider w rbody) = w) \<and>
   (lookup rbody ''email'' = None \<longrightarrow>
      status (fst (post_subscriber uuid now w rbody)) = 400 \<and>
      snd (post_subscriber uuid now w rbody) = w) \<and>
   (lookup rbody ''accountId'' = None \<or> lookup rbody ''to'' = None \<or>
    lookup rbody ''subject'' = None \<or> lookup rbody ''content'' = None \<longrightarrow>
      status (fst (send_email provider w rbody)) = 400 \<and>
      snd (send_email provider w rbody) = w) \<and>
   (lookup rbody ''accountId'' = None \<or> lookup rbody ''event'' = None \<or>
    lookup rbody ''email'' = None \<longrightarrow>
      status (fst (track_event provider w rbody)) = 400 \<and>
      snd (track_event provider w rbody) = w)"
proof -
  have 1: "lookup rbody ''secretKey'' = None \<longrightarrow>
      status (fst (check_status provider w rbody)) = 400 \<and>
      snd (check_status provider w rbody) = w"
    by (simp add: check_status_falsy json_reply_def)
  have 2: "lookup rbody ''email'' = None \<longrightarrow>
      status (fst (post_subscriber uuid now w rbody)) = 400 \<and>
      snd (post_subscriber uuid now w rbody) = w"
    by (simp add: post_subscriber_falsy json_reply_def)
  have 3: "lookup rbody ''accountId'' = None \<or> lookup rbody ''to'' = None \<or>
    lookup rbody ''subject'' = None \<or> lookup rbody ''content'' = None \<longrightarrow>
      status (fst (send_email provider w rbody)) = 400 \<and>
      snd (send_email provider w rbody) = w"
  proof
    assume "lookup rbody ''accountId'' = None \<or> lookup rbody ''to'' = None \<or>
      lookup rbody ''subject'' = None \<or> lookup rbody ''content'' = None"
    then have "\<not> truthy (lookup rbody ''accountId'') \<or> \<not> truthy (lookup rbody ''to'') \<or>
      \<not> truthy (lookup rbody ''subject'') \<or> \<not> truthy (lookup rbody ''content'')"
      by auto
    then show "status (fst (send_email provider w rbody)) = 400 \<and>
      snd (send_email provider w rbody) = w"
      by (simp only: send_email_falsy) (simp add: json_reply_def)
  qed
  have 4: "lookup rbody ''accountId'' = None \<or> lookup rbody ''event'' = None \<or>
    lookup rbody ''email'' = None \<longrightarrow>
      status (fst (track_event provider w rbody)) = 400 \<and>
      snd (track_event provider w rbody) = w"
  proof
    assume "lookup rbody ''accountId'' = None \<or> lookup rbody ''event'' = None \<or>
      lookup rbody ''email'' = None"
    then have "\<not> truthy (lookup rbody ''accountId'') \<or> \<not> truthy (lookup rbody ''event'') \<or>
      \<not> truthy (lookup rbody ''email'')"
      by auto
    then show "status (fst (track_event provider w rbody)) = 400 \<and>
      snd (track_event provider w rbody) = w"
      by (simp only: track_event_falsy) (simp add: json_reply_def)
  qed
  from 1 2 3 4 show ?thesis by blast
qed

theorem missing_field_is_400_witness:
  "lookup [(''name'', JStr ''x'')] ''secretKey'' = None \<and>
   status (fst (check_status plunk_up world0 [(''name'', JStr ''x'')])) = 400 \<and>
   snd (check_status plunk_up world0 [(''name'', JStr ''x'')]) = world0 \<and>
   lookup [(''name'', JStr ''x'')] ''email'' = None \<and>
   status (fst (post_subscriber ''u-2'' ''2024-02-02T00:00:00.000Z'' world0
                  [(''name'', JStr ''x'')])) = 400 \<and>
   snd (post_subscriber ''u-2'' ''2024-02-02T00:00:00.000Z'' world0 [(''name'', JStr ''x'')]) =
     world0 \<and>
   lookup [(''accountId'', JStr ''a1''), (''to'', JStr ''bob@example.org''),
           (''subject'', JStr ''Hi'')] ''content'' = None \<and>
   status (fst (send_email plunk_up world0
     [(''accountId'', JStr ''a1''), (''to'', JStr ''bob@example.org''),
      (''subject'', JStr ''Hi'')])) = 400 \<and>
   snd (send_email plunk_up world0
     [(''accountId'', JStr ''a1''), (''to'', JStr ''bob@example.org''),
      (''subject'', JStr ''Hi'')]) = world0 \<and>
   lookup [(''accountId'', JStr ''a1''), (''email'', JStr ''bob@example.org'')] ''event'' = None \<and>
   status (fst (track_event plunk_up world0
     [(''accountId'', JStr ''a1''), (''email'', JStr ''bob@example.org'')])) = 400 \<and>
   snd (track_event plunk_up world0
     [(''accountId'', JStr ''a1''), (''email'', JStr ''bob@example.org'')]) = world0"
proof -
  have l1: "lookup [(''name'', JStr ''x'')] ''secretKey'' = None"
    and l2: "lookup [(''name'', JStr ''x'')] ''email'' = None"
    and l3: "lookup [(''accountId'', JStr ''a1''), (''to'', JStr ''bob@example.org''),
                     (''subject'', JStr ''Hi'')] ''content'' = None"
    and l4: "lookup [(''accountId'', JStr ''a1''), (''email'', JStr ''bob@example.org'')]
               ''event'' = None"
    by (simp_all add: lookup_def)
  show ?thesis
    using l1 l2 l3 l4
      missing_field_is_400 [of "[(''name'', JStr ''x'')]" plunk_up world0
         "''u-2''" "''2024-02-02T00:00:00.000Z''"]
      missing_field_is_400 [of "[(''accountId'', JStr ''a1''), (''to'', JStr ''bob@example.org''),
                                 (''subject'', JStr ''Hi'')]"
         plunk_up world0 "''u-2''" "''2024-02-02T00:00:00.000Z''"]
      missing_field_is_400 [of "[(''accountId'', JStr ''a1''), (''email'', JStr ''bob@example.org'')]"
         plunk_up world0 "''u-2''" "''2024-02-02T00:00:00.000Z''"]
    by simp
qed







text \<open>
  C1, as the gateway does it. When the provider call of a send or track request fails
  with a response (its status is then 300 or more), the answer has the provider's status
  code and, unless that status is 304, under which Express sends no body, the body
  \<open>error\<close>, \<open>details\<close> where \<open>details\<close> is the provider's error body (the error's
  message when that body is empty). When the call fails without a response the answer is
  500 with the error's message as \<open>details\<close>. A failed provider call of the status
  check is always answered 401 with a fixed body.
\<close>

theorem provider_failure_relayed:
  assumes "log w = []"
  shows
    "(Called c \<in> set (log (snd (send_email provider w rbody))) \<and>
      provider c = Threw (Error (Some (st, d)) msg) \<and> 300 \<le> st \<and> st \<le> 999 \<longrightarrow>
        fst (send_email provider w rbody) =
          \<lparr>status = st,
           body = (if st = 304 then None
                   else Some (JObj [(''error'', JStr ''Failed to send email''),
                                    (''details'', if truthy (Some d) then d else JStr msg)]))\<rparr>) \<and>
     (Called c \<in> set (log (snd (send_email provider w rbody))) \<and>
      provider c = Threw (Error None msg) \<longrightarrow>
        fst (send_email provider w rbody) =
          \<lparr>status = 500,
           body = Some (JObj [(''error'', JStr ''Failed to send email''),
                              (''details'', JStr msg)])\<rparr>) \<and>
     (Called c \<in> set (log (snd (track_event provider w rbody))) \<and>
      provider c = Threw (Error (Some (st, d)) msg) \<and> 300 \<le> st \<and> st \<le> 999 \<longrightarrow>
        fst (track_event provider w rbody) =
          \<lparr>status = st,
           body = (if st = 304 then None
                   else Some (JObj [(''error'', JStr ''Failed to track event''),
                                    (''details'', if truthy (Some d) then d else JStr msg)]))\<rparr>) \<and>
     (Called c \<in> set (log (snd (track_event provider w rbody))) \<and>
      provider c = Threw (Error None msg) \<longrightarrow>
        fst (track_event provider w rbody) =
          \<lparr>status = 500,
           body = Some (JObj [(''error'', JStr ''Failed to track event''),
                              (''details'', JStr msg)])\<rparr>) \<and>
     (Called c \<in> set (log (snd (check_status provider w rbody))) \<and>
      provider c = Threw e \<longrightarrow>
        fst (check_status provider w rbody) =
          \<lparr>status = 401,
           body = Some (JObj [(''success'', JBool False),
                              (''message'', JStr ''Authentication Failed''),
                              (''details'', JStr ''Invalid Plunk Secret Key'')])\<rparr>)"
proof (intro conjI impI)
  assume "Called c \<in> set (log (snd (send_email provider w rbody))) \<and>
      provider c = Threw (Error (Some (st, d)) msg) \<and> 300 \<le> st \<and> st \<le> 999"
  then show "fst (send_email provider w rbody) =
          \<lparr>status = st,
           body = (if st = 304 then None
                   else Some (JObj [(''error'', JStr ''Failed to send email''),
                                    (''details'', if truthy (Some d) then d else JStr msg)]))\<rparr>"
    using send_call_made [OF assms, of c provider rbody] by (simp add: json_reply_def)
next
  assume "Called c \<in> set (log (snd (send_email provider w rbody))) \<and>
      provider c = Threw (Error None msg)"
  then show "fst (send_email provider w rbody) =
          \<lparr>status = 500,
           body = Some (JObj [(''error'', JStr ''Failed to send email''),
                              (''details'', JStr msg)])\<rparr>"
    using send_call_made [OF assms, of c provider rbody] by (simp add: json_reply_def)
next
  assume "Called c \<in> set (log (snd (track_event provider w rbody))) \<and>
      provider c = Threw (Error (Some (st, d)) msg) \<and> 300 \<le> st \<and> st \<le> 999"
  then show "fst (track_event provider w rbody) =
          \<lparr>status = st,
           body = (if st = 304 then None
                   else Some (JObj [(''error'', JStr ''Failed to track event''),
                                    (''details'', if truthy (Some d) then d else JStr msg)]))\<rparr>"
    using track_call_made [OF assms, of c provider rbody] by (simp add: json_reply_def)
next
  assume "Called c \<in> set (log (snd (track_event provider w rbody))) \<and>
      provider c = Threw (Error None msg)"
  then show "fst (track_event provider w rbody) =
          \<lparr>status = 500,
           body = Some (JObj [(''error'', JStr ''Failed to track event''),
                              (''details'', JStr msg)])\<rparr>"
    using track_call_made [OF assms, of c provider rbody] by (simp add: json_reply_def)
next
  assume "Called c \<in> set (log (snd (check_status provider w rbody))) \<and> provider c = Threw e"
  then show "fst (check_status provider w rbody) =
          \<lparr>status = 401,
           body = Some (JObj [(''success'', JBool False),
                              (''message'', JStr ''Authentication Failed''),
                              (''details'', JStr ''Invalid Plunk Secret Key'')])\<rparr>"
    using check_call_made [OF assms, of c provider rbody]
    by (simp add: auth_failed_def json_reply_def)
qed

theorem provider_failure_relayed_witness:
  "log world0 = [] \<and>
   Called send_call \<in> set (log (snd (send_email plunk_rejects world0 send_request))) \<and>
   plunk_rejects send_call =
     Threw (Error (Some (422, JObj [(''message'', JStr ''Invalid email'')]))
              ''Request failed with status code 422'') \<and>
   (300::nat) \<le> 422 \<and> (422::nat) \<le> 999 \<and>
   fst (send_email plunk_rejects world0 send_request) =
     \<lparr>status = 422,
      body = Some (JObj [(''error'', JStr ''Failed to send email''),
                         (''details'', JObj [(''message'', JStr ''Invalid email'')])])\<rparr> \<and>
   Called send_call \<in> set (log (snd (send_email plunk_not_modified world0 send_request))) \<and>
   plunk_not_modified send_call =
     Threw (Error (Some (304, JStr [])) ''Request failed with status code 304'') \<and>
   (300::nat) \<le> 304 \<and> (304::nat) \<le> 999 \<and>
   fst (send_email plunk_not_modified world0 send_request) = \<lparr>status = 304, body = None\<rparr> \<and>
   Called send_call \<in> set (log (snd (send_email plunk_unreachable world0 send_request))) \<and>
   plunk_unreachable send_call = Threw (Error None ''connect ECONNREFUSED'') \<and>
   fst (send_email plunk_unreachable world0 send_request) =
     \<lparr>status = 500,
      body = Some (JObj [(''error'', JStr ''Failed to send email''),
                         (''details'', JStr ''connect ECONNREFUSED'')])\<rparr> \<and>
   Called track_call \<in> set (log (snd (track_event plunk_rejects world0 track_request))) \<and>
   fst (track_event plunk_rejects world0 track_request) =
     \<lparr>status = 422,
      body = Some (JObj [(''error'', JStr ''Failed to track event''),
                         (''details'', JObj [(''message'', JStr ''Invalid email'')])])\<rparr> \<and>
   Called track_call \<in> set (log (snd (track_event plunk_not_modified world0 track_request))) \<and>
   fst (track_event plunk_not_modified world0 track_request) = \<lparr>status = 304, body = None\<rparr> \<and>
   Called track_call \<in> set (log (snd (track_event plunk_unreachable world0 track_request))) \<and>
   fst (track_event plunk_unreachable world0 track_request) =
     \<lparr>status = 500,
      body = Some (JObj [(''error'', JStr ''Failed to track event''),
                         (''details'', JStr ''connect ECONNREFUSED'')])\<rparr> \<and>
   Called check_call \<in> set (log (snd (check_status plunk_rejects world0 check_request))) \<and>
   fst (check_status plunk_rejects world0 check_request) =
     \<lparr>status = 401,
      body = Some (JObj [(''success'', JBool False),
                         (''message'', JStr ''Authentication Failed''),
                         (''details'', JStr ''Invalid Plunk Secret Key'')])\<rparr>"
proof -
  have l: "log world0 = []" by (simp add: world0_def)
  have r: "plunk_rejects c =
     Threw (Error (Some (422, JObj [(''message'', JStr ''Invalid email'')]))
              ''Request failed with status code 422'')" for c
    by (simp add: plunk_rejects_def)
  have n: "plunk_not_modified c =
     Threw (Error (Some (304, JStr [])) ''Request failed with status code 304'')" for c
    by (simp add: plunk_not_modified_def)
  have u: "plunk_unreachable c = Threw (Error None ''connect ECONNREFUSED'')" for c
    by (simp add: plunk_unreachable_def)
  show ?thesis
    using l r n u
      provider_failure_relayed [OF l, of send_call plunk_rejects send_request 422
        "JObj [(''message'', JStr ''Invalid email'')]" "''Request failed with status code 422''"]
      provider_failure_relayed [OF l, of send_call plunk_not_modified send_request 304
        "JStr []" "''Request failed with status code 304''"]
      provider_failure_relayed [OF l, of send_call plunk_unreachable send_request _ _
        "''connect ECONNREFUSED''"]
      provider_failure_relayed [OF l, of track_call plunk_rejects track_request 422
        "JObj [(''message'', JStr ''Invalid email'')]" "''Request failed with status code 422''"]
      provider_failure_relayed [OF l, of track_call plunk_not_modified track_request 304
        "JStr []" "''Request failed with status code 304''"]
      provider_failure_relayed [OF l, of track_call plunk_unreachable track_request _ _
        "''connect ECONNREFUSED''"]
      provider_failure_relayed [OF l, of check_call plunk_rejects check_request _ _ _
        "Error (Some (422, JObj [(''message'', JStr ''Invalid email'')]))
              ''Request failed with status code 422''"]
    by (simp add: send_log track_log check_log)
qed

text \<open>
  C1 as worded fails on the status check: the provider rejects the call with status 422
  and an error body, or does not answer at all, and the gateway answers 401 with its own
  fixed body both times, neither the provider's status and body nor 500.
\<close>

theorem check_status_masks_provider_error_counterexample:
  "Called check_call \<in> set (log (snd (check_status plunk_rejects world0 check_request))) \<and>
   plunk_rejects check_call =
     Threw (Error (Some (422, JObj [(''message'', JStr ''Invalid email'')]))
              ''Request failed with status code 422'') \<and>
   fst (check_status plunk_rejects world0 check_request) =
     \<lparr>status = 401,
      body = Some (JObj [(''success'', JBool False), (''message'', JStr ''Authentication Failed''),
                         (''details'', JStr ''Invalid Plunk Secret Key'')])\<rparr> \<and>
   status (fst (check_status plunk_rejects world0 check_request)) \<noteq> 422 \<and>
   Called check_call \<in> set (log (snd (check_status plunk_unreachable world0 check_request))) \<and>
   plunk_unreachable check_call = Threw (Error None ''connect ECONNREFUSED'') \<and>
   status (fst (check_status plunk_unreachable world0 check_request)) \<noteq> 500"
  by (simp add: check_status_def lookup_def world0_def bearer_def call_def check_call_def
      check_request_def plunk_rejects_def plunk_unreachable_def auth_failed_def json_reply_def)

end
